theory Spec2Isabelle
  imports Complex_Main "HOL-Library.Char_ord" "HOL-Library.List_Lexorder"
    "HOL-Library.Option_ord"
begin

section \<open>Exceptions, cells and data frames\<close>

text \<open>
  The dashboard page \<^verbatim>\<open>src/pages/Dashboard_northwin.py\<close> reads a SQLite file through
  \<^verbatim>\<open>sqlite3\<close> and \<^verbatim>\<open>pandas\<close>. Exceptions are values: the payload of an exception is its
  message (for \<^verbatim>\<open>KeyError\<close>, the missing key). \<^verbatim>\<open>KeyboardInterrupt\<close> stands for the
  exceptions that are not instances of Python's \<^verbatim>\<open>Exception\<close> class, which the clause
  \<^verbatim>\<open>except Exception\<close> does not catch.
\<close>

datatype exn =
    OperationalError string
  | DatabaseError string
  | KeyError string
  | StreamlitAPIException string
  | KeyboardInterrupt

fun is_Exception :: "exn \<Rightarrow> bool" where
  "is_Exception KeyboardInterrupt = False"
| "is_Exception _ = True"

text \<open>\<^verbatim>\<open>str(e)\<close>, as the f-string of \<^verbatim>\<open>execute_query\<close> renders it. A \<^verbatim>\<open>KeyError\<close> prints the
  \<^verbatim>\<open>repr\<close> of its key, which for a key without quotes or backslashes is the key in
  single quotes.\<close>

fun exn_str :: "exn \<Rightarrow> string" where
  "exn_str (OperationalError m) = m"
| "exn_str (DatabaseError m) = m"
| "exn_str (KeyError k) = [CHR 0x27] @ k @ [CHR 0x27]"
| "exn_str (StreamlitAPIException m) = m"
| "exn_str KeyboardInterrupt = []"

text \<open>Sequencing of computations that may raise.\<close>

definition and_then :: "exn + 'a \<Rightarrow> ('a \<Rightarrow> exn + 'b) \<Rightarrow> exn + 'b" where
  "and_then r f = (case r of Inl e \<Rightarrow> Inl e | Inr v \<Rightarrow> f v)"

text \<open>
  A cell of a data frame. \<open>Null\<close> is SQL's NULL, which pandas shows as \<^verbatim>\<open>None\<close>.
  The numeric cells are an idealisation: SQLite computes on IEEE doubles and on 64-bit
  integers (a \<^verbatim>\<open>SUM\<close> of integers that overflows is an error), the model on exact
  rationals and unbounded integers. The two agree where the engine's arithmetic is
  exact, as on the small values of the example stores; no theorem below says what
  number a query returns in general.
\<close>

datatype cell = Null | Text string | Number rat | Integer int

record dataframe =
  columns :: "string list"
  rows :: "cell list list"

text \<open>\<^verbatim>\<open>pd.DataFrame()\<close>: no columns and no rows.\<close>

definition empty_DataFrame :: dataframe where
  "empty_DataFrame = \<lparr>columns = [], rows = []\<rparr>"

fun position :: "'a \<Rightarrow> 'a list \<Rightarrow> nat" where
  "position a [] = 0"
| "position a (x # xs) = (if x = a then 0 else Suc (position a xs))"

text \<open>The cell of a row at a column index. A frame is rectangular, so the index is
  in range for every row of a frame that pandas builds.\<close>

definition cell_at :: "nat \<Rightarrow> cell list \<Rightarrow> cell" where
  "cell_at i r = (if i < length r then r ! i else Null)"

text \<open>\<^verbatim>\<open>df[col]\<close>: the values of a column, or \<^verbatim>\<open>KeyError\<close> when the frame has no such
  column.\<close>

definition getitem :: "dataframe \<Rightarrow> string \<Rightarrow> exn + cell list" where
  "getitem df col =
     (if col \<in> set (columns df)
      then Inr (map (cell_at (position col (columns df))) (rows df))
      else Inl (KeyError col))"

text \<open>\<^verbatim>\<open>Series.dropna()\<close>.\<close>

definition dropna :: "cell list \<Rightarrow> cell list" where
  "dropna xs = [x \<leftarrow> xs. x \<noteq> Null]"

text \<open>\<^verbatim>\<open>Series.unique()\<close>: the distinct values in order of first appearance
  (\<open>remdups\<close> keeps the last occurrence of each value, hence the two reversals).\<close>

definition unique :: "'a list \<Rightarrow> 'a list" where
  "unique xs = rev (remdups (rev xs))"

text \<open>\<^verbatim>\<open>Series.isin(values)\<close>: a boolean mask; \<^verbatim>\<open>None\<close> is a member of a list that
  holds \<^verbatim>\<open>None\<close>.\<close>

definition isin :: "cell list \<Rightarrow> cell list \<Rightarrow> bool list" where
  "isin xs sel = map (\<lambda>x. x \<in> set sel) xs"

text \<open>\<^verbatim>\<open>df[mask]\<close>: the rows at which the mask is \<^verbatim>\<open>True\<close>, in their order, under the
  same columns.\<close>

definition boolean_index :: "dataframe \<Rightarrow> bool list \<Rightarrow> dataframe" where
  "boolean_index df keep = df\<lparr>rows := map fst (filter snd (zip (rows df) keep))\<rparr>"

text \<open>The filtering expression of \<^verbatim>\<open>main\<close>, \<^verbatim>\<open>df[df[col].isin(selected)]\<close>.\<close>

definition filter_isin :: "dataframe \<Rightarrow> string \<Rightarrow> cell list \<Rightarrow> exn + dataframe" where
  "filter_isin df col sel =
     and_then (getitem df col) (\<lambda>vals. Inr (boolean_index df (isin vals sel)))"

section \<open>The backing store\<close>

text \<open>
  The five tables the queries read, with the columns they name. The grouping columns
  \<^verbatim>\<open>Country\<close>, \<^verbatim>\<open>ProductName\<close> and \<^verbatim>\<open>CategoryName\<close> may be NULL (\<^verbatim>\<open>main\<close> itself drops the
  missing countries). A table that the file does not have is \<open>None\<close>.
\<close>

record order_row =
  order_Id :: int
  order_CustomerId :: string

record customer_row =
  customer_Id :: string
  customer_Country :: "string option"

record order_detail_row =
  od_OrderId :: int
  od_ProductId :: int
  od_UnitPrice :: rat
  od_Quantity :: int
  od_Discount :: rat

record product_row =
  product_Id :: int
  product_ProductName :: "string option"
  product_CategoryId :: int

record category_row =
  category_Id :: int
  category_CategoryName :: "string option"

record store =
  tbl_Order :: "order_row list option"
  tbl_Customer :: "customer_row list option"
  tbl_OrderDetail :: "order_detail_row list option"
  tbl_Product :: "product_row list option"
  tbl_Category :: "category_row list option"

text \<open>
  The world of one page run: what \<^verbatim>\<open>sqlite3.connect\<close> finds (an exception or the store),
  the number of connections that are open, and the messages \<^verbatim>\<open>st.error\<close> has shown.
\<close>

record world =
  connect_result :: "exn + store"
  open_connections :: nat
  shown_errors :: "string list"

definition connect :: "world \<Rightarrow> (exn + store) \<times> world" where
  "connect w =
     (case connect_result w of
        Inl e \<Rightarrow> (Inl e, w)
      | Inr s \<Rightarrow> (Inr s, w\<lparr>open_connections := Suc (open_connections w)\<rparr>))"

definition conn_close :: "world \<Rightarrow> world" where
  "conn_close w = w\<lparr>open_connections := open_connections w - 1\<rparr>"

definition st_error :: "string \<Rightarrow> world \<Rightarrow> world" where
  "st_error msg w = w\<lparr>shown_errors := shown_errors w @ [msg]\<rparr>"

section \<open>The query executor\<close>

text \<open>
  \<^verbatim>\<open>execute_query(query, params=None)\<close>. The statement runner \<^verbatim>\<open>pd.read_sql_query\<close> is the
  parameter \<open>run\<close>; it gets the parameters only when they are truthy (neither
  \<^verbatim>\<open>None\<close> nor empty). The \<^verbatim>\<open>except\<close> clause handles the instances of \<^verbatim>\<open>Exception\<close>, any
  other exception propagates. The \<^verbatim>\<open>finally\<close> clause closes the connection when the
  local \<^verbatim>\<open>conn\<close> is bound, which is when \<^verbatim>\<open>sqlite3.connect\<close> returned.
\<close>

definition handler :: "exn \<Rightarrow> world \<Rightarrow> (exn + dataframe) \<times> world" where
  "handler e w =
     (if is_Exception e
      then (Inr empty_DataFrame, st_error (''Database error: '' @ exn_str e) w)
      else (Inl e, w))"

definition execute_query ::
  "('q \<Rightarrow> cell list option \<Rightarrow> store \<Rightarrow> exn + dataframe) \<Rightarrow> 'q \<Rightarrow> cell list option \<Rightarrow>
     world \<Rightarrow> (exn + dataframe) \<times> world" where
  "execute_query run query params w =
     (case connect w of
        (Inl e, w1) \<Rightarrow> handler e w1
      | (Inr conn, w1) \<Rightarrow>
          (let r = (if params \<noteq> None \<and> params \<noteq> Some []
                    then run query params conn
                    else run query None conn);
               (res, w2) = (case r of Inr df \<Rightarrow> (Inr df, w1) | Inl e \<Rightarrow> handler e w1)
           in (res, conn_close w2)))"

section \<open>The aggregation queries\<close>

text \<open>
  The three SQL statements, read as relational expressions over the tables of the
  store: the joins are nested loops in the order of the FROM clause, \<^verbatim>\<open>GROUP BY\<close> makes
  one group per value of the grouping column (NULL is one value), \<^verbatim>\<open>ORDER BY ... DESC\<close>
  is a sort on the negated key, and \<^verbatim>\<open>LIMIT 10\<close> keeps the first ten rows. SQL
  leaves the order among rows with equal sort keys to the engine. The model follows
  what SQLite's sorter does on tables that fit in memory: the groups come in
  ascending order of the grouping value (NULL first, strings byte by byte), and among
  rows with equal sort keys the later group comes first.
\<close>

text \<open>\<^verbatim>\<open>ROUND(x, 2)\<close> on an exact number: to two decimals, halves away from zero.\<close>

definition round2 :: "rat \<Rightarrow> rat" where
  "round2 x =
     (if 0 \<le> x then of_int \<lfloor>x * 100 + 1 / 2\<rfloor> / 100
      else - (of_int \<lfloor>- x * 100 + 1 / 2\<rfloor> / 100))"

definition group_by :: "('r \<Rightarrow> 'k::linorder) \<Rightarrow> 'r list \<Rightarrow> ('k \<times> 'r list) list" where
  "group_by key rs = map (\<lambda>k. (k, [r \<leftarrow> rs. key r = k])) (sort (remdups (map key rs)))"

definition order_by_desc :: "('r \<Rightarrow> 'k::linordered_idom) \<Rightarrow> 'r list \<Rightarrow> 'r list" where
  "order_by_desc key rs = sort_key (\<lambda>r. - key r) (rev rs)"

text \<open>Looking a table up; the engine reports the first table of the FROM clause that
  the file does not have. The payload is SQLite's message, without the prefix that
  pandas puts before it.\<close>

definition table :: "string \<Rightarrow> 'r list option \<Rightarrow> exn + 'r list" where
  "table name t =
     (case t of None \<Rightarrow> Inl (DatabaseError (''no such table: '' @ name)) | Some rs \<Rightarrow> Inr rs)"

definition text_cell :: "string option \<Rightarrow> cell" where
  "text_cell v = (case v of None \<Rightarrow> Null | Some s \<Rightarrow> Text s)"

subsection \<open>Sales by country\<close>

record country_sales =
  Country :: "string option"
  TotalSales :: rat
  TotalOrders :: nat

text \<open>\<^verbatim>\<open>FROM [Order] o JOIN Customer cu ON o.CustomerId = cu.Id
  JOIN OrderDetail od ON o.Id = od.OrderId\<close>\<close>

definition sales_join ::
  "order_row list \<Rightarrow> customer_row list \<Rightarrow> order_detail_row list \<Rightarrow>
     (order_row \<times> customer_row \<times> order_detail_row) list" where
  "sales_join os cs ds =
     concat (map (\<lambda>ord.
       concat (map (\<lambda>cu. map (\<lambda>od. (ord, cu, od)) [od \<leftarrow> ds. order_Id ord = od_OrderId od])
         [cu \<leftarrow> cs. order_CustomerId ord = customer_Id cu])) os)"

text \<open>\<^verbatim>\<open>SELECT cu.Country, ROUND(SUM(od.UnitPrice * od.Quantity), 2) AS TotalSales,
  COUNT(DISTINCT o.Id) AS TotalOrders ... GROUP BY cu.Country ORDER BY TotalSales DESC\<close>\<close>

definition sales_by_country_rows ::
  "order_row list \<Rightarrow> customer_row list \<Rightarrow> order_detail_row list \<Rightarrow> country_sales list" where
  "sales_by_country_rows os cs ds =
     order_by_desc TotalSales
       (map (\<lambda>(c, g).
          \<lparr>Country = c,
           TotalSales =
             round2 (sum_list (map (\<lambda>(ord, cu, od). od_UnitPrice od * of_int (od_Quantity od)) g)),
           TotalOrders = length (unique (map (\<lambda>(ord, cu, od). order_Id ord) g))\<rparr>)
          (group_by (\<lambda>(ord, cu, od). customer_Country cu) (sales_join os cs ds)))"

definition sales_frame :: "country_sales list \<Rightarrow> dataframe" where
  "sales_frame rs =
     \<lparr>columns = [''Country'', ''TotalSales'', ''TotalOrders''],
      rows = map (\<lambda>r. [text_cell (Country r), Number (TotalSales r),
                        Integer (int (TotalOrders r))]) rs\<rparr>"

subsection \<open>Profit by category\<close>

record category_profit =
  CategoryName :: "string option"
  Profit :: rat

text \<open>\<^verbatim>\<open>FROM OrderDetail od JOIN Product p ON od.ProductId = p.Id
  JOIN Category c ON p.CategoryId = c.Id\<close>\<close>

definition profit_join ::
  "order_detail_row list \<Rightarrow> product_row list \<Rightarrow> category_row list \<Rightarrow>
     (order_detail_row \<times> product_row \<times> category_row) list" where
  "profit_join ds ps cats =
     concat (map (\<lambda>od.
       concat (map (\<lambda>p. map (\<lambda>c. (od, p, c)) [c \<leftarrow> cats. product_CategoryId p = category_Id c])
         [p \<leftarrow> ps. od_ProductId od = product_Id p])) ds)"

text \<open>\<^verbatim>\<open>SELECT c.CategoryName, ROUND(SUM(od.UnitPrice * od.Quantity) -
  SUM(od.UnitPrice * od.Quantity * od.Discount), 2) AS Profit ...
  GROUP BY c.CategoryName ORDER BY Profit DESC\<close>\<close>

definition profit_by_category_rows ::
  "order_detail_row list \<Rightarrow> product_row list \<Rightarrow> category_row list \<Rightarrow> category_profit list" where
  "profit_by_category_rows ds ps cats =
     order_by_desc Profit
       (map (\<lambda>(n, g).
          \<lparr>CategoryName = n,
           Profit =
             round2
               (sum_list (map (\<lambda>(od, p, c). od_UnitPrice od * of_int (od_Quantity od)) g) -
                sum_list (map (\<lambda>(od, p, c).
                  od_UnitPrice od * of_int (od_Quantity od) * od_Discount od) g))\<rparr>)
          (group_by (\<lambda>(od, p, c). category_CategoryName c) (profit_join ds ps cats)))"

definition profit_frame :: "category_profit list \<Rightarrow> dataframe" where
  "profit_frame rs =
     \<lparr>columns = [''CategoryName'', ''Profit''],
      rows = map (\<lambda>r. [text_cell (CategoryName r), Number (Profit r)]) rs\<rparr>"

subsection \<open>Top-selling products\<close>

record top_product =
  ProductName :: "string option"
  TotalSold :: int
  TotalRevenue :: rat

text \<open>\<^verbatim>\<open>FROM OrderDetail od JOIN Product p ON od.ProductId = p.Id\<close>\<close>

definition product_join ::
  "order_detail_row list \<Rightarrow> product_row list \<Rightarrow> (order_detail_row \<times> product_row) list" where
  "product_join ds ps =
     concat (map (\<lambda>od. map (\<lambda>p. (od, p)) [p \<leftarrow> ps. od_ProductId od = product_Id p]) ds)"

text \<open>\<^verbatim>\<open>SELECT p.ProductName, SUM(od.Quantity) AS TotalSold,
  ROUND(SUM(od.UnitPrice * od.Quantity), 2) AS TotalRevenue ...
  GROUP BY p.ProductName ORDER BY TotalSold DESC\<close>: the statement up to its \<^verbatim>\<open>LIMIT\<close>.\<close>

definition ranked_product_rows ::
  "order_detail_row list \<Rightarrow> product_row list \<Rightarrow> top_product list" where
  "ranked_product_rows ds ps =
     order_by_desc TotalSold
       (map (\<lambda>(n, g).
          \<lparr>ProductName = n,
           TotalSold = sum_list (map (\<lambda>(od, p). od_Quantity od) g),
           TotalRevenue =
             round2 (sum_list (map (\<lambda>(od, p). od_UnitPrice od * of_int (od_Quantity od)) g))\<rparr>)
          (group_by (\<lambda>(od, p). product_ProductName p) (product_join ds ps)))"

text \<open>\<^verbatim>\<open>... LIMIT 10\<close>\<close>

definition top_selling_products_rows ::
  "order_detail_row list \<Rightarrow> product_row list \<Rightarrow> top_product list" where
  "top_selling_products_rows ds ps = take 10 (ranked_product_rows ds ps)"

definition top_frame :: "top_product list \<Rightarrow> dataframe" where
  "top_frame rs =
     \<lparr>columns = [''ProductName'', ''TotalSold'', ''TotalRevenue''],
      rows = map (\<lambda>r. [text_cell (ProductName r), Integer (TotalSold r),
                        Number (TotalRevenue r)]) rs\<rparr>"

subsection \<open>Running a statement\<close>

text \<open>The three statements of the page, named after the functions that hold them.\<close>

datatype query = Sales_by_country | Profit_by_category | Top_selling_products

fun evaluate :: "query \<Rightarrow> store \<Rightarrow> exn + dataframe" where
  "evaluate Sales_by_country s =
     and_then (table ''Order'' (tbl_Order s)) (\<lambda>os.
     and_then (table ''Customer'' (tbl_Customer s)) (\<lambda>cs.
     and_then (table ''OrderDetail'' (tbl_OrderDetail s)) (\<lambda>ds.
       Inr (sales_frame (sales_by_country_rows os cs ds)))))"
| "evaluate Profit_by_category s =
     and_then (table ''OrderDetail'' (tbl_OrderDetail s)) (\<lambda>ds.
     and_then (table ''Product'' (tbl_Product s)) (\<lambda>ps.
     and_then (table ''Category'' (tbl_Category s)) (\<lambda>cats.
       Inr (profit_frame (profit_by_category_rows ds ps cats)))))"
| "evaluate Top_selling_products s =
     and_then (table ''OrderDetail'' (tbl_OrderDetail s)) (\<lambda>ds.
     and_then (table ''Product'' (tbl_Product s)) (\<lambda>ps.
       Inr (top_frame (top_selling_products_rows ds ps))))"

text \<open>\<^verbatim>\<open>pd.read_sql_query(query, conn, params)\<close> on one of the three statements. None of
  them has a placeholder, so a statement that compiles is refused when bound
  parameters come with it.\<close>

definition read_sql_query :: "query \<Rightarrow> cell list option \<Rightarrow> store \<Rightarrow> exn + dataframe" where
  "read_sql_query q params s =
     and_then (evaluate q s) (\<lambda>df.
       case params of
         Some (p # ps) \<Rightarrow> Inl (DatabaseError ''Incorrect number of bindings supplied'')
       | _ \<Rightarrow> Inr df)"

definition load_sales_by_country :: "world \<Rightarrow> (exn + dataframe) \<times> world" where
  "load_sales_by_country w = execute_query read_sql_query Sales_by_country None w"

definition load_profit_by_category :: "world \<Rightarrow> (exn + dataframe) \<times> world" where
  "load_profit_by_category w = execute_query read_sql_query Profit_by_category None w"

definition load_top_selling_products :: "world \<Rightarrow> (exn + dataframe) \<times> world" where
  "load_top_selling_products w = execute_query read_sql_query Top_selling_products None w"

section \<open>The page\<close>

text \<open>
  What the user has picked in the two multiselect widgets; \<open>None\<close> is a widget that
  was not touched, as on page load.
\<close>

record user_input =
  country_choice :: "cell list option"
  category_choice :: "cell list option"

text \<open>\<^verbatim>\<open>st.multiselect(label, options, default)\<close>: the default selection on an untouched
  widget, the user's selection otherwise; a default that is not among the options is
  refused.\<close>

definition multiselect :: "cell list \<Rightarrow> cell list \<Rightarrow> cell list option \<Rightarrow> exn + cell list" where
  "multiselect options dflt choice =
     (if \<not> set dflt \<subseteq> set options
      then Inl (StreamlitAPIException ''Every Multiselect default value must exist in options'')
      else Inr (case choice of None \<Rightarrow> dflt | Some sel \<Rightarrow> sel))"

text \<open>\<^verbatim>\<open>DataFrame.empty\<close>: an axis of length zero.\<close>

definition is_empty :: "dataframe \<Rightarrow> bool" where
  "is_empty df = (rows df = [] \<or> columns df = [])"

text \<open>What \<^verbatim>\<open>main\<close> hands to the widgets: the options and defaults of the two filters,
  their selections, the two filtered tables, the table behind each chart (\<open>None\<close>
  when the warning is shown in its place), the table of top products and the two
  counters.\<close>

record page =
  country_options :: "cell list"
  country_default :: "cell list"
  selected_countries :: "cell list"
  category_options :: "cell list"
  category_default :: "cell list"
  selected_categories :: "cell list"
  filtered_country_sales :: dataframe
  filtered_category_profit :: dataframe
  bar_chart :: "dataframe option"
  pie_chart :: "dataframe option"
  top_table :: dataframe
  total_countries :: nat
  total_categories :: nat

text \<open>The body of \<^verbatim>\<open>main\<close> below the three loads.\<close>

definition render :: "user_input \<Rightarrow> dataframe \<Rightarrow> dataframe \<Rightarrow> dataframe \<Rightarrow> exn + page" where
  "render u sales_by_country profit_by_category top_selling_products =
     and_then (getitem sales_by_country ''Country'') (\<lambda>c1.
     and_then (getitem sales_by_country ''Country'') (\<lambda>c2.
     and_then (multiselect (unique (dropna c1)) (take 5 (unique (dropna c2)))
                 (country_choice u)) (\<lambda>countries.
     and_then (getitem profit_by_category ''CategoryName'') (\<lambda>k1.
     and_then (getitem profit_by_category ''CategoryName'') (\<lambda>k2.
     and_then (multiselect (unique k1) (unique k2) (category_choice u)) (\<lambda>categories.
     and_then (filter_isin sales_by_country ''Country'' countries) (\<lambda>fcs.
     and_then (filter_isin profit_by_category ''CategoryName'' categories) (\<lambda>fcp.
       Inr \<lparr>country_options = unique (dropna c1),
            country_default = take 5 (unique (dropna c2)),
            selected_countries = countries,
            category_options = unique k1,
            category_default = unique k2,
            selected_categories = categories,
            filtered_country_sales = fcs,
            filtered_category_profit = fcp,
            bar_chart = (if \<not> is_empty fcs then Some fcs else None),
            pie_chart = (if \<not> is_empty fcp then Some fcp else None),
            top_table = top_selling_products,
            total_countries = length (rows sales_by_country),
            total_categories = length (rows profit_by_category)\<rparr>))))))))"

definition main :: "user_input \<Rightarrow> world \<Rightarrow> (exn + page) \<times> world" where
  "main u w =
     (case load_sales_by_country w of
        (Inl e, w1) \<Rightarrow> (Inl e, w1)
      | (Inr sales_by_country, w1) \<Rightarrow>
     (case load_profit_by_category w1 of
        (Inl e, w2) \<Rightarrow> (Inl e, w2)
      | (Inr profit_by_category, w2) \<Rightarrow>
     (case load_top_selling_products w2 of
        (Inl e, w3) \<Rightarrow> (Inl e, w3)
      | (Inr top_selling_products, w3) \<Rightarrow>
          (render u sales_by_country profit_by_category top_selling_products, w3))))"

section \<open>Descending order and restriction\<close>

text \<open>Descending order of a list of values.\<close>

definition descending :: "'k::linorder list \<Rightarrow> bool" where
  "descending ks = sorted_wrt (\<lambda>a b. b \<le> a) ks"

text \<open>A table restricted to the rows whose value in the key column is a member of the
  selected set.\<close>

definition restrict_to :: "dataframe \<Rightarrow> string \<Rightarrow> cell list \<Rightarrow> dataframe" where
  "restrict_to df col sel =
     df\<lparr>rows := [r \<leftarrow> rows df. cell_at (position col (columns df)) r \<in> set sel]\<rparr>"

section \<open>Example stores\<close>

text \<open>
  A small store: three customers (the third has no country), one order each, two
  products in two categories.
\<close>

definition example_orders :: "order_row list" where
  "example_orders =
     [\<lparr>order_Id = 1, order_CustomerId = ''A''\<rparr>,
      \<lparr>order_Id = 2, order_CustomerId = ''B''\<rparr>,
      \<lparr>order_Id = 3, order_CustomerId = ''C''\<rparr>]"

definition example_customers :: "customer_row list" where
  "example_customers =
     [\<lparr>customer_Id = ''A'', customer_Country = Some ''X''\<rparr>,
      \<lparr>customer_Id = ''B'', customer_Country = Some ''Y''\<rparr>,
      \<lparr>customer_Id = ''C'', customer_Country = None\<rparr>]"

definition example_details :: "order_detail_row list" where
  "example_details =
     [\<lparr>od_OrderId = 1, od_ProductId = 1, od_UnitPrice = 5 / 2, od_Quantity = 2,
       od_Discount = 1 / 10\<rparr>,
      \<lparr>od_OrderId = 2, od_ProductId = 2, od_UnitPrice = 4, od_Quantity = 1,
       od_Discount = 0\<rparr>,
      \<lparr>od_OrderId = 3, od_ProductId = 1, od_UnitPrice = 1, od_Quantity = 1,
       od_Discount = 0\<rparr>]"

definition example_products :: "product_row list" where
  "example_products =
     [\<lparr>product_Id = 1, product_ProductName = Some ''Tea'', product_CategoryId = 1\<rparr>,
      \<lparr>product_Id = 2, product_ProductName = Some ''Jam'', product_CategoryId = 2\<rparr>]"

definition example_categories :: "category_row list" where
  "example_categories =
     [\<lparr>category_Id = 1, category_CategoryName = Some ''Drinks''\<rparr>,
      \<lparr>category_Id = 2, category_CategoryName = Some ''Sweets''\<rparr>]"

definition example_store :: store where
  "example_store =
     \<lparr>tbl_Order = Some example_orders, tbl_Customer = Some example_customers,
      tbl_OrderDetail = Some example_details, tbl_Product = Some example_products,
      tbl_Category = Some example_categories\<rparr>"

definition example_world :: world where
  "example_world = \<lparr>connect_result = Inr example_store, open_connections = 0, shown_errors = []\<rparr>"

text \<open>
  A store with seven customers, one of them without a country, and one order with one
  order line for each. In descending order of sales the countries are Germany (70),
  none (60), USA (50), France (40), Brazil (30), Spain (20), Italy (10).
\<close>

definition seven_orders :: "order_row list" where
  "seven_orders =
     [\<lparr>order_Id = 1, order_CustomerId = ''C1''\<rparr>,
      \<lparr>order_Id = 2, order_CustomerId = ''C2''\<rparr>,
      \<lparr>order_Id = 3, order_CustomerId = ''C3''\<rparr>,
      \<lparr>order_Id = 4, order_CustomerId = ''C4''\<rparr>,
      \<lparr>order_Id = 5, order_CustomerId = ''C5''\<rparr>,
      \<lparr>order_Id = 6, order_CustomerId = ''C6''\<rparr>,
      \<lparr>order_Id = 7, order_CustomerId = ''C7''\<rparr>]"

definition seven_customers :: "customer_row list" where
  "seven_customers =
     [\<lparr>customer_Id = ''C1'', customer_Country = Some ''Brazil''\<rparr>,
      \<lparr>customer_Id = ''C2'', customer_Country = Some ''France''\<rparr>,
      \<lparr>customer_Id = ''C3'', customer_Country = None\<rparr>,
      \<lparr>customer_Id = ''C4'', customer_Country = Some ''Germany''\<rparr>,
      \<lparr>customer_Id = ''C5'', customer_Country = Some ''Italy''\<rparr>,
      \<lparr>customer_Id = ''C6'', customer_Country = Some ''Spain''\<rparr>,
      \<lparr>customer_Id = ''C7'', customer_Country = Some ''USA''\<rparr>]"

definition seven_details :: "order_detail_row list" where
  "seven_details =
     [\<lparr>od_OrderId = 1, od_ProductId = 1, od_UnitPrice = 30, od_Quantity = 1, od_Discount = 0\<rparr>,
      \<lparr>od_OrderId = 2, od_ProductId = 2, od_UnitPrice = 40, od_Quantity = 1, od_Discount = 0\<rparr>,
      \<lparr>od_OrderId = 3, od_ProductId = 1, od_UnitPrice = 60, od_Quantity = 1, od_Discount = 0\<rparr>,
      \<lparr>od_OrderId = 4, od_ProductId = 2, od_UnitPrice = 70, od_Quantity = 1, od_Discount = 0\<rparr>,
      \<lparr>od_OrderId = 5, od_ProductId = 1, od_UnitPrice = 10, od_Quantity = 1, od_Discount = 0\<rparr>,
      \<lparr>od_OrderId = 6, od_ProductId = 2, od_UnitPrice = 20, od_Quantity = 1, od_Discount = 0\<rparr>,
      \<lparr>od_OrderId = 7, od_ProductId = 1, od_UnitPrice = 50, od_Quantity = 1, od_Discount = 0\<rparr>]"

definition seven_store :: store where
  "seven_store =
     \<lparr>tbl_Order = Some seven_orders, tbl_Customer = Some seven_customers,
      tbl_OrderDetail = Some seven_details, tbl_Product = Some example_products,
      tbl_Category = Some example_categories\<rparr>"

definition seven_world :: world where
  "seven_world = \<lparr>connect_result = Inr seven_store, open_connections = 0, shown_errors = []\<rparr>"

text \<open>The file cannot be opened.\<close>

definition unreachable_world :: world where
  "unreachable_world =
     \<lparr>connect_result = Inl (OperationalError ''unable to open database file''),
      open_connections = 0, shown_errors = []\<rparr>"

text \<open>The file opens, but has no table \<^verbatim>\<open>Category\<close>.\<close>

definition no_category_world :: world where
  "no_category_world =
     \<lparr>connect_result = Inr (example_store\<lparr>tbl_Category := None\<rparr>),
      open_connections = 0, shown_errors = []\<rparr>"

text \<open>The user clears both filters; the user selects every offered value.\<close>

definition page_load :: user_input where
  "page_load = \<lparr>country_choice = None, category_choice = None\<rparr>"

definition nothing_selected :: user_input where
  "nothing_selected = \<lparr>country_choice = Some [], category_choice = Some []\<rparr>"

definition everything_selected :: user_input where
  "everything_selected =
     \<lparr>country_choice = Some [Text ''X'', Text ''Y''],
      category_choice = Some [Text ''Drinks'', Text ''Sweets'']\<rparr>"

section \<open>The query executor: failures and the connection\<close>

lemma handler_Exception:
  "is_Exception e \<Longrightarrow>
     handler e w = (Inr empty_DataFrame, st_error (''Database error: '' @ exn_str e) w)"
  by (simp add: handler_def)

lemma handler_open_connections:
  "open_connections (snd (handler e w)) = open_connections w"
  by (simp add: handler_def st_error_def)

lemma execute_query_unreachable:
  "connect_result w = Inl e \<Longrightarrow> execute_query run q params w = handler e w"
  by (simp add: execute_query_def connect_def)

lemma execute_query_reachable:
  "connect_result w = Inr s \<Longrightarrow>
     execute_query run q params w =
       (case (if params \<noteq> None \<and> params \<noteq> Some [] then run q params s else run q None s) of
          Inr df \<Rightarrow> (Inr df, w)
        | Inl e \<Rightarrow> (fst (handler e w), snd (handler e w)))"
  by (simp add: execute_query_def connect_def conn_close_def handler_def st_error_def Let_def
           split: sum.splits)

text \<open>
  C4. A failure of the connection or of the statement that is an \<^verbatim>\<open>Exception\<close> is
  caught: \<^verbatim>\<open>execute_query\<close> returns (it does not raise) the table without rows and
  without columns, and the message \<^verbatim>\<open>Database error: ...\<close> is shown. When the store
  cannot be opened, the three query functions all return that empty table.
\<close>

theorem execute_query_failure_caught:
  assumes "is_Exception e"
    and "connect_result w = Inl e \<or>
         (\<exists>s. connect_result w = Inr s \<and>
            (if params \<noteq> None \<and> params \<noteq> Some [] then run q params s else run q None s) = Inl e)"
  shows "execute_query run q params w =
           (Inr empty_DataFrame,
            w\<lparr>shown_errors := shown_errors w @ [''Database error: '' @ exn_str e]\<rparr>)
         \<and> rows empty_DataFrame = [] \<and> columns empty_DataFrame = []
         \<and> (connect_result w = Inl e \<longrightarrow>
              fst (load_sales_by_country w) = Inr empty_DataFrame \<and>
              fst (load_profit_by_category w) = Inr empty_DataFrame \<and>
              fst (load_top_selling_products w) = Inr empty_DataFrame)"
proof -
  have first: "execute_query run q params w =
      (Inr empty_DataFrame, st_error (''Database error: '' @ exn_str e) w)"
    using assms
    by (auto simp: execute_query_unreachable execute_query_reachable handler_Exception)
  have loaders: "fst (execute_query read_sql_query q' None w) = Inr empty_DataFrame"
    if "connect_result w = Inl e" for q'
    using that assms(1) by (simp add: execute_query_unreachable handler_Exception)
  show ?thesis
    using first loaders
    by (simp add: st_error_def empty_DataFrame_def load_sales_by_country_def
          load_profit_by_category_def load_top_selling_products_def)
qed

theorem execute_query_failure_caught_witness:
  "execute_query read_sql_query Sales_by_country None unreachable_world =
     (Inr empty_DataFrame,
      unreachable_world\<lparr>shown_errors := [''Database error: unable to open database file'']\<rparr>)
   \<and> fst (load_profit_by_category unreachable_world) = Inr empty_DataFrame
   \<and> fst (load_top_selling_products unreachable_world) = Inr empty_DataFrame
   \<and> execute_query read_sql_query Profit_by_category None no_category_world =
     (Inr empty_DataFrame,
      no_category_world\<lparr>shown_errors := [''Database error: no such table: Category'']\<rparr>)"
proof -
  have a: "connect_result unreachable_world =
      Inl (OperationalError ''unable to open database file'')"
    by (simp add: unreachable_world_def)
  have b: "connect_result no_category_world = Inr (example_store\<lparr>tbl_Category := None\<rparr>)"
    by (simp add: no_category_world_def)
  have c: "read_sql_query Profit_by_category None (example_store\<lparr>tbl_Category := None\<rparr>) =
      Inl (DatabaseError ''no such table: Category'')"
    by (simp add: read_sql_query_def and_then_def table_def example_store_def)
  have d: "shown_errors unreachable_world = []" "shown_errors no_category_world = []"
    by (simp_all add: unreachable_world_def no_category_world_def)
  show ?thesis
    using execute_query_failure_caught
      [of "OperationalError ''unable to open database file''" unreachable_world None
          read_sql_query Sales_by_country]
      execute_query_failure_caught
      [of "DatabaseError ''no such table: Category''" no_category_world None
          read_sql_query Profit_by_category]
    by (simp add: a b c d)
qed

text \<open>
  C5. Whatever the statement, its parameters and the outcome (a table, a caught
  failure, or an exception that propagates), the connection that \<^verbatim>\<open>execute_query\<close>
  opened is closed when it returns: as many connections are open afterwards as
  before. When \<^verbatim>\<open>sqlite3.connect\<close> itself fails, none was opened.
\<close>

theorem execute_query_closes_connection:
  "open_connections (snd (execute_query run q params w)) = open_connections w"
proof (cases "connect_result w")
  case (Inl e)
  then show ?thesis
    by (simp add: execute_query_unreachable handler_open_connections)
next
  case (Inr s)
  then show ?thesis
    by (simp add: execute_query_reachable handler_open_connections split: sum.splits)
qed

theorem execute_query_closes_connection_witness:
  "open_connections (snd (execute_query read_sql_query Profit_by_category None no_category_world)) = 0"
  using execute_query_closes_connection
    [of read_sql_query Profit_by_category None no_category_world]
  by (simp add: no_category_world_def)

section \<open>Lists, groups and sorting\<close>

lemma set_unique: "set (unique xs) = set xs"
  by (simp add: unique_def)

lemma distinct_unique: "distinct (unique xs)"
  by (simp add: unique_def)

lemma unique_distinct_id: "distinct xs \<Longrightarrow> unique xs = xs"
  by (simp add: unique_def distinct_remdups_id)

lemma group_by_keys: "map fst (group_by key rs) = sort (remdups (map key rs))"
  by (simp add: group_by_def comp_def)

lemma distinct_group_by_keys: "distinct (map fst (group_by key rs))"
  by (simp add: group_by_keys)

lemma set_order_by_desc: "set (order_by_desc key rs) = set rs"
  by (simp add: order_by_desc_def)

lemma length_order_by_desc: "length (order_by_desc key rs) = length rs"
  by (simp add: order_by_desc_def)

lemma distinct_map_order_by_desc:
  "distinct (map f (order_by_desc key rs)) = distinct (map f rs)"
  by (simp add: order_by_desc_def distinct_map)

lemma descending_order_by_desc: "descending (map key (order_by_desc key rs))"
proof -
  have "sorted (map (\<lambda>r. - key r) (order_by_desc key rs))"
    by (simp add: order_by_desc_def)
  then show ?thesis
    by (simp add: descending_def sorted_wrt_map)
qed

lemma descending_take: "descending ks \<Longrightarrow> descending (take n ks)"
  by (simp add: descending_def sorted_wrt_take)

section \<open>The shape of the query results\<close>

text \<open>
  What holds of the rows of each statement whatever the arithmetic: no two rows share
  the grouping value, the rows are in descending order of the sort column, and the
  third statement returns at most ten rows.
\<close>

lemma sales_rows_countries:
  "distinct (map Country (sales_by_country_rows os cs ds))"
proof -
  have "map Country (map (\<lambda>(c, g).
          \<lparr>Country = c,
           TotalSales =
             round2 (sum_list (map (\<lambda>(ord, cu, od). od_UnitPrice od * of_int (od_Quantity od)) g)),
           TotalOrders = length (unique (map (\<lambda>(ord, cu, od). order_Id ord) g))\<rparr>)
          (group_by (\<lambda>(ord, cu, od). customer_Country cu) (sales_join os cs ds))) =
      map fst (group_by (\<lambda>(ord, cu, od). customer_Country cu) (sales_join os cs ds))"
    by (simp add: comp_def case_prod_beta)
  then show ?thesis
    unfolding sales_by_country_rows_def distinct_map_order_by_desc
    by (simp only: distinct_group_by_keys)
qed

lemma sales_rows_descending:
  "descending (map TotalSales (sales_by_country_rows os cs ds))"
  unfolding sales_by_country_rows_def by (rule descending_order_by_desc)

lemma profit_rows_names:
  "distinct (map CategoryName (profit_by_category_rows ds ps cats))"
proof -
  have "map CategoryName (map (\<lambda>(n, g).
          \<lparr>CategoryName = n,
           Profit =
             round2
               (sum_list (map (\<lambda>(od, p, c). od_UnitPrice od * of_int (od_Quantity od)) g) -
                sum_list (map (\<lambda>(od, p, c).
                  od_UnitPrice od * of_int (od_Quantity od) * od_Discount od) g))\<rparr>)
          (group_by (\<lambda>(od, p, c). category_CategoryName c) (profit_join ds ps cats))) =
      map fst (group_by (\<lambda>(od, p, c). category_CategoryName c) (profit_join ds ps cats))"
    by (simp add: comp_def case_prod_beta)
  then show ?thesis
    unfolding profit_by_category_rows_def distinct_map_order_by_desc
    by (simp only: distinct_group_by_keys)
qed

lemma profit_rows_descending:
  "descending (map Profit (profit_by_category_rows ds ps cats))"
  unfolding profit_by_category_rows_def by (rule descending_order_by_desc)

lemma ranked_rows_names:
  "distinct (map ProductName (ranked_product_rows ds ps))"
proof -
  have "map ProductName (map (\<lambda>(n, g).
          \<lparr>ProductName = n,
           TotalSold = sum_list (map (\<lambda>(od, p). od_Quantity od) g),
           TotalRevenue =
             round2 (sum_list (map (\<lambda>(od, p). od_UnitPrice od * of_int (od_Quantity od)) g))\<rparr>)
          (group_by (\<lambda>(od, p). product_ProductName p) (product_join ds ps))) =
      map fst (group_by (\<lambda>(od, p). product_ProductName p) (product_join ds ps))"
    by (simp add: comp_def case_prod_beta)
  then show ?thesis
    unfolding ranked_product_rows_def distinct_map_order_by_desc
    by (simp only: distinct_group_by_keys)
qed

lemma top_rows_names:
  "distinct (map ProductName (top_selling_products_rows ds ps))"
  using ranked_rows_names [of ds ps]
  by (simp add: top_selling_products_rows_def take_map [symmetric] del: take_map)

lemma top_rows_at_most_10: "length (top_selling_products_rows ds ps) \<le> 10"
  by (simp add: top_selling_products_rows_def)

lemma top_rows_descending:
  "descending (map TotalSold (top_selling_products_rows ds ps))"
  unfolding top_selling_products_rows_def take_map [symmetric] ranked_product_rows_def
  by (rule descending_take, rule descending_order_by_desc)

section \<open>Loading from a store that opens\<close>

lemma evaluate_not_interrupt: "evaluate q s \<noteq> Inl KeyboardInterrupt"
  by (cases q) (auto simp: and_then_def table_def split: option.splits)

lemma load_reachable:
  assumes "connect_result w = Inr s" "evaluate q s = Inr df"
  shows "execute_query read_sql_query q None w = (Inr df, w)"
  using assms by (simp add: execute_query_reachable read_sql_query_def and_then_def)

lemma load_sales_reachable:
  assumes "connect_result w = Inr s" "tbl_Order s = Some os" "tbl_Customer s = Some cs"
    "tbl_OrderDetail s = Some ds"
  shows "load_sales_by_country w = (Inr (sales_frame (sales_by_country_rows os cs ds)), w)"
  unfolding load_sales_by_country_def
  by (rule load_reachable [OF assms(1)]) (simp add: assms and_then_def table_def)

lemma load_profit_reachable:
  assumes "connect_result w = Inr s" "tbl_OrderDetail s = Some ds" "tbl_Product s = Some ps"
    "tbl_Category s = Some cats"
  shows "load_profit_by_category w = (Inr (profit_frame (profit_by_category_rows ds ps cats)), w)"
  unfolding load_profit_by_category_def
  by (rule load_reachable [OF assms(1)]) (simp add: assms and_then_def table_def)

lemma load_top_reachable:
  assumes "connect_result w = Inr s" "tbl_OrderDetail s = Some ds" "tbl_Product s = Some ps"
  shows "load_top_selling_products w = (Inr (top_frame (top_selling_products_rows ds ps)), w)"
  unfolding load_top_selling_products_def
  by (rule load_reachable [OF assms(1)]) (simp add: assms and_then_def table_def)

section \<open>The page: filters and defaults\<close>

lemma zip_map_filter: "map fst (filter snd (zip xs (map g xs))) = filter g xs"
  by (induction xs) simp_all

lemma filter_isin_restrict:
  "col \<in> set (columns df) \<Longrightarrow> filter_isin df col sel = Inr (restrict_to df col sel)"
  by (simp add: filter_isin_def getitem_def and_then_def boolean_index_def isin_def
        restrict_to_def zip_map_filter comp_def)

lemma getitem_sales_frame:
  "getitem (sales_frame rs) ''Country'' = Inr (map (\<lambda>r. text_cell (Country r)) rs)"
  by (simp add: getitem_def sales_frame_def cell_at_def comp_def)

lemma getitem_profit_frame:
  "getitem (profit_frame rs) ''CategoryName'' = Inr (map (\<lambda>r. text_cell (CategoryName r)) rs)"
  by (simp add: getitem_def profit_frame_def cell_at_def comp_def)

lemma multiselect_ok:
  "set dflt \<subseteq> set options \<Longrightarrow>
     multiselect options dflt choice = Inr (case choice of None \<Rightarrow> dflt | Some sel \<Rightarrow> sel)"
  by (simp add: multiselect_def)

lemma render_frames:
  fixes srs prs u top
  defines "cvals \<equiv> unique (dropna (map (\<lambda>r. text_cell (Country r)) srs))"
    and "kvals \<equiv> unique (map (\<lambda>r. text_cell (CategoryName r)) prs)"
  defines "countries \<equiv> (case country_choice u of None \<Rightarrow> take 5 cvals | Some sel \<Rightarrow> sel)"
    and "categories \<equiv> (case category_choice u of None \<Rightarrow> kvals | Some sel \<Rightarrow> sel)"
  shows "render u (sales_frame srs) (profit_frame prs) top =
     Inr \<lparr>country_options = cvals,
          country_default = take 5 cvals,
          selected_countries = countries,
          category_options = kvals,
          category_default = kvals,
          selected_categories = categories,
          filtered_country_sales = restrict_to (sales_frame srs) ''Country'' countries,
          filtered_category_profit = restrict_to (profit_frame prs) ''CategoryName'' categories,
          bar_chart = (if \<not> is_empty (restrict_to (sales_frame srs) ''Country'' countries)
                       then Some (restrict_to (sales_frame srs) ''Country'' countries) else None),
          pie_chart = (if \<not> is_empty (restrict_to (profit_frame prs) ''CategoryName'' categories)
                       then Some (restrict_to (profit_frame prs) ''CategoryName'' categories)
                       else None),
          top_table = top,
          total_countries = length srs,
          total_categories = length prs\<rparr>"
proof -
  have c: "''Country'' \<in> set (columns (sales_frame srs))"
    by (simp add: sales_frame_def)
  have k: "''CategoryName'' \<in> set (columns (profit_frame prs))"
    by (simp add: profit_frame_def)
  have m1: "multiselect cvals (take 5 cvals) (country_choice u) = Inr countries"
    unfolding countries_def by (rule multiselect_ok) (rule set_take_subset)
  have m2: "multiselect kvals kvals (category_choice u) = Inr categories"
    unfolding categories_def by (rule multiselect_ok) simp
  have l1: "length (rows (sales_frame srs)) = length srs"
    by (simp add: sales_frame_def)
  have l2: "length (rows (profit_frame prs)) = length prs"
    by (simp add: profit_frame_def)
  show ?thesis
    unfolding render_def getitem_sales_frame getitem_profit_frame
      filter_isin_restrict [OF c] filter_isin_restrict [OF k] l1 l2
    by (simp add: and_then_def m1 [unfolded cvals_def] m2 [unfolded kvals_def]
          cvals_def kvals_def)
qed

lemma main_reachable:
  assumes "connect_result w = Inr s"
    and "tbl_Order s = Some os" and "tbl_Customer s = Some cs" and "tbl_OrderDetail s = Some ds"
    and "tbl_Product s = Some ps" and "tbl_Category s = Some cats"
  shows "main u w =
     (render u (sales_frame (sales_by_country_rows os cs ds))
        (profit_frame (profit_by_category_rows ds ps cats))
        (top_frame (top_selling_products_rows ds ps)), w)"
  by (simp add: main_def load_sales_reachable [OF assms(1-4)]
        load_profit_reachable [OF assms(1,4,5,6)] load_top_reachable [OF assms(1,4,5)])

lemma inj_text_cell: "inj text_cell"
  by (auto simp: inj_on_def text_cell_def split: option.splits)

lemma distinct_country_cells:
  "distinct (map (\<lambda>r. text_cell (Country r)) (sales_by_country_rows os cs ds))"
proof -
  have "distinct (map text_cell (map Country (sales_by_country_rows os cs ds)))"
    using sales_rows_countries [of os cs ds]
    by (simp add: distinct_map inj_on_subset [OF inj_text_cell subset_UNIV] del: map_map)
  then show ?thesis by (simp add: comp_def)
qed

lemma distinct_category_cells:
  "distinct (map (\<lambda>r. text_cell (CategoryName r)) (profit_by_category_rows ds ps cats))"
proof -
  have "distinct (map text_cell (map CategoryName (profit_by_category_rows ds ps cats)))"
    using profit_rows_names [of ds ps cats]
    by (simp add: distinct_map inj_on_subset [OF inj_text_cell subset_UNIV] del: map_map)
  then show ?thesis by (simp add: comp_def)
qed

lemma distinct_dropna: "distinct xs \<Longrightarrow> distinct (dropna xs)"
  by (simp add: dropna_def)

text \<open>
  C6 (amended). When the store opens and has its five tables, \<^verbatim>\<open>main\<close> returns a page
  for every selection: the selection of a filter is the user's choice, or the default
  on an untouched widget; the sales-by-country table is restricted to the rows whose
  \<^verbatim>\<open>Country\<close> is among the selected countries and the profit-by-category table to the
  rows whose \<^verbatim>\<open>CategoryName\<close> is among the selected categories. The table of top-selling
  products is shown as the query returned it: no filter applies to it.
\<close>

theorem filters_restrict_two_tables:
  assumes "connect_result w = Inr s"
    and "tbl_Order s = Some os" and "tbl_Customer s = Some cs" and "tbl_OrderDetail s = Some ds"
    and "tbl_Product s = Some ps" and "tbl_Category s = Some cats"
  shows "\<exists>pg sales profit top.
    fst (main u w) = Inr pg \<and>
    fst (load_sales_by_country w) = Inr sales \<and>
    fst (load_profit_by_category w) = Inr profit \<and>
    fst (load_top_selling_products w) = Inr top \<and>
    selected_countries pg =
      (case country_choice u of None \<Rightarrow> country_default pg | Some sel \<Rightarrow> sel) \<and>
    selected_categories pg =
      (case category_choice u of None \<Rightarrow> category_default pg | Some sel \<Rightarrow> sel) \<and>
    filtered_country_sales pg = restrict_to sales ''Country'' (selected_countries pg) \<and>
    filtered_category_profit pg = restrict_to profit ''CategoryName'' (selected_categories pg) \<and>
    top_table pg = top"
  by (simp add: main_reachable [OF assms] render_frames load_sales_reachable [OF assms(1-4)]
        load_profit_reachable [OF assms(1,4,5,6)] load_top_reachable [OF assms(1,4,5)]
      split: option.splits)

theorem filters_restrict_two_tables_witness:
  "\<exists>pg sales profit top.
    fst (main nothing_selected example_world) = Inr pg \<and>
    fst (load_sales_by_country example_world) = Inr sales \<and>
    fst (load_profit_by_category example_world) = Inr profit \<and>
    fst (load_top_selling_products example_world) = Inr top \<and>
    selected_countries pg = [] \<and> selected_categories pg = [] \<and>
    filtered_country_sales pg = restrict_to sales ''Country'' [] \<and>
    filtered_category_profit pg = restrict_to profit ''CategoryName'' [] \<and>
    top_table pg = top"
proof -
  have w: "connect_result example_world = Inr example_store"
    by (simp add: example_world_def)
  have t: "tbl_Order example_store = Some example_orders"
    "tbl_Customer example_store = Some example_customers"
    "tbl_OrderDetail example_store = Some example_details"
    "tbl_Product example_store = Some example_products"
    "tbl_Category example_store = Some example_categories"
    by (simp_all add: example_store_def)
  have u: "country_choice nothing_selected = Some []" "category_choice nothing_selected = Some []"
    by (simp_all add: nothing_selected_def)
  show ?thesis
    using filters_restrict_two_tables [OF w t, of nothing_selected] by (auto simp: u)
qed

text \<open>
  C6 as stated fails: with nothing selected in either filter, the table of top-selling
  products still has both of its rows.
\<close>

theorem top_products_not_filtered:
  "map_sum id selected_countries (fst (main nothing_selected example_world)) = Inr []
   \<and> map_sum id selected_categories (fst (main nothing_selected example_world)) = Inr []
   \<and> map_sum id top_table (fst (main nothing_selected example_world)) =
       Inr \<lparr>columns = [''ProductName'', ''TotalSold'', ''TotalRevenue''],
            rows = [[Text ''Tea'', Integer 3, Number 6], [Text ''Jam'', Integer 1, Number 4]]\<rparr>"
  by code_simp

text \<open>
  On a table that has the key column, the filter with the empty selection returns (it
  does not raise) the table with the same columns and no rows.
\<close>

lemma filter_isin_empty_selection:
  assumes "col \<in> set (columns df)"
  shows "filter_isin df col [] = Inr (df\<lparr>rows := []\<rparr>)"
  using assms by (simp add: filter_isin_restrict restrict_to_def)

text \<open>
  C8. When the store cannot be opened, the table that \<^verbatim>\<open>load_sales_by_country\<close> returns
  has no columns; filtering it by the empty selection raises \<^verbatim>\<open>KeyError\<close> for \<^verbatim>\<open>Country\<close>
  instead of returning a table without rows, and so does \<^verbatim>\<open>main\<close> with nothing
  selected.
\<close>

theorem filter_of_failed_load_raises:
  "fst (load_sales_by_country unreachable_world) = Inr empty_DataFrame
   \<and> filter_isin empty_DataFrame ''Country'' [] = Inl (KeyError ''Country'')
   \<and> fst (main nothing_selected unreachable_world) = Inl (KeyError ''Country'')"
  by code_simp

text \<open>
  C9. When the store opens and has its five tables, the page load (both widgets
  untouched) returns a page. The first column of the sales table is \<^verbatim>\<open>Country\<close> and
  its values are distinct; the default of the country filter is the first 5 of those
  values that are not missing, in the order of the rows, so it holds no missing
  value and has 5 entries when 5 countries or more are there. The first column of the
  profit table is \<^verbatim>\<open>CategoryName\<close>, its values are distinct, and the default of the
  category filter is that whole column. Each selection is its default.
\<close>

theorem page_load_defaults:
  assumes "connect_result w = Inr s"
    and "tbl_Order s = Some os" and "tbl_Customer s = Some cs" and "tbl_OrderDetail s = Some ds"
    and "tbl_Product s = Some ps" and "tbl_Category s = Some cats"
  shows "\<exists>pg sales profit.
    fst (main page_load w) = Inr pg \<and>
    fst (load_sales_by_country w) = Inr sales \<and>
    fst (load_profit_by_category w) = Inr profit \<and>
    hd (columns sales) = ''Country'' \<and> distinct (map hd (rows sales)) \<and>
    hd (columns profit) = ''CategoryName'' \<and> distinct (map hd (rows profit)) \<and>
    country_default pg = take 5 [c \<leftarrow> map hd (rows sales). c \<noteq> Null] \<and>
    Null \<notin> set (country_default pg) \<and>
    length (country_default pg) = min 5 (length [c \<leftarrow> map hd (rows sales). c \<noteq> Null]) \<and>
    category_default pg = map hd (rows profit) \<and>
    selected_countries pg = country_default pg \<and>
    selected_categories pg = category_default pg"
proof -
  let ?srs = "sales_by_country_rows os cs ds"
  let ?prs = "profit_by_category_rows ds ps cats"
  let ?countries = "map (\<lambda>r. text_cell (Country r)) ?srs"
  let ?categories = "map (\<lambda>r. text_cell (CategoryName r)) ?prs"
  let ?C = "map hd (rows (sales_frame ?srs))"
  let ?K = "map hd (rows (profit_frame ?prs))"
  let ?pg = "\<lparr>country_options = [c \<leftarrow> ?C. c \<noteq> Null],
          country_default = take 5 [c \<leftarrow> ?C. c \<noteq> Null],
          selected_countries = take 5 [c \<leftarrow> ?C. c \<noteq> Null],
          category_options = ?K,
          category_default = ?K,
          selected_categories = ?K,
          filtered_country_sales =
            restrict_to (sales_frame ?srs) ''Country'' (take 5 [c \<leftarrow> ?C. c \<noteq> Null]),
          filtered_category_profit = restrict_to (profit_frame ?prs) ''CategoryName'' ?K,
          bar_chart =
            (if \<not> is_empty (restrict_to (sales_frame ?srs) ''Country''
                 (take 5 [c \<leftarrow> ?C. c \<noteq> Null]))
             then Some (restrict_to (sales_frame ?srs) ''Country''
                 (take 5 [c \<leftarrow> ?C. c \<noteq> Null]))
             else None),
          pie_chart =
            (if \<not> is_empty (restrict_to (profit_frame ?prs) ''CategoryName'' ?K)
             then Some (restrict_to (profit_frame ?prs) ''CategoryName'' ?K)
             else None),
          top_table = top_frame (top_selling_products_rows ds ps),
          total_countries = length ?srs,
          total_categories = length ?prs\<rparr>"
  have hs: "?countries = ?C"
    by (simp add: sales_frame_def comp_def)
  have hp: "?categories = ?K"
    by (simp add: profit_frame_def comp_def)
  have dc: "distinct ?C"
    using distinct_country_cells [of os cs ds] unfolding hs .
  have dk: "distinct ?K"
    using distinct_category_cells [of ds ps cats] unfolding hp .
  have opts: "unique (dropna ?C) = [c \<leftarrow> ?C. c \<noteq> Null]"
    using dc by (simp add: unique_distinct_id distinct_dropna) (simp add: dropna_def)
  have cats: "unique ?K = ?K"
    using dk by (rule unique_distinct_id)
  have u: "country_choice page_load = None" "category_choice page_load = None"
    by (simp_all add: page_load_def)
  have m: "fst (main page_load w) = Inr ?pg"
    unfolding main_reachable [OF assms] fst_conv render_frames u hs hp opts cats
    by simp
  show ?thesis
  proof (intro exI conjI)
    show "fst (main page_load w) = Inr ?pg" by (rule m)
    show "fst (load_sales_by_country w) = Inr (sales_frame ?srs)"
      by (simp add: load_sales_reachable [OF assms(1-4)])
    show "fst (load_profit_by_category w) = Inr (profit_frame ?prs)"
      by (simp add: load_profit_reachable [OF assms(1,4,5,6)])
    show "hd (columns (sales_frame ?srs)) = ''Country''"
      by (simp add: sales_frame_def)
    show "hd (columns (profit_frame ?prs)) = ''CategoryName''"
      by (simp add: profit_frame_def)
    show "distinct ?C" by (rule dc)
    show "distinct ?K" by (rule dk)
    show "country_default ?pg = take 5 [c \<leftarrow> ?C. c \<noteq> Null]"
      by simp
    show "Null \<notin> set (country_default ?pg)"
      using in_set_takeD [of Null 5 "[c \<leftarrow> ?C. c \<noteq> Null]"] by auto
    show "length (country_default ?pg) = min 5 (length [c \<leftarrow> ?C. c \<noteq> Null])"
      by (simp add: min.commute del: filter_map)
    show "category_default ?pg = ?K" by simp
    show "selected_countries ?pg = country_default ?pg" by simp
    show "selected_categories ?pg = category_default ?pg" by simp
  qed
qed

theorem page_load_defaults_witness:
  "fst (load_sales_by_country seven_world) =
     Inr \<lparr>columns = [''Country'', ''TotalSales'', ''TotalOrders''],
          rows = [[Text ''Germany'', Number 70, Integer 1],
                  [Null, Number 60, Integer 1],
                  [Text ''USA'', Number 50, Integer 1],
                  [Text ''France'', Number 40, Integer 1],
                  [Text ''Brazil'', Number 30, Integer 1],
                  [Text ''Spain'', Number 20, Integer 1],
                  [Text ''Italy'', Number 10, Integer 1]]\<rparr>
   \<and> map_sum id country_default (fst (main page_load seven_world)) =
     Inr [Text ''Germany'', Text ''USA'', Text ''France'', Text ''Brazil'', Text ''Spain'']
   \<and> map_sum id category_default (fst (main page_load seven_world)) =
     Inr [Text ''Drinks'', Text ''Sweets'']"
proof -
  have w: "connect_result seven_world = Inr seven_store"
    by (simp add: seven_world_def)
  have t: "tbl_Order seven_store = Some seven_orders"
    "tbl_Customer seven_store = Some seven_customers"
    "tbl_OrderDetail seven_store = Some seven_details"
    "tbl_Product seven_store = Some example_products"
    "tbl_Category seven_store = Some example_categories"
    by (simp_all add: seven_store_def)
  have sales: "fst (load_sales_by_country seven_world) =
     Inr \<lparr>columns = [''Country'', ''TotalSales'', ''TotalOrders''],
          rows = [[Text ''Germany'', Number 70, Integer 1],
                  [Null, Number 60, Integer 1],
                  [Text ''USA'', Number 50, Integer 1],
                  [Text ''France'', Number 40, Integer 1],
                  [Text ''Brazil'', Number 30, Integer 1],
                  [Text ''Spain'', Number 20, Integer 1],
                  [Text ''Italy'', Number 10, Integer 1]]\<rparr>"
    by code_simp
  have profit: "fst (load_profit_by_category seven_world) =
     Inr \<lparr>columns = [''CategoryName'', ''Profit''],
          rows = [[Text ''Drinks'', Number 150], [Text ''Sweets'', Number 130]]\<rparr>"
    by code_simp
  from page_load_defaults [OF w t] obtain pg sales profit where
    m: "fst (main page_load seven_world) = Inr pg"
    and s: "fst (load_sales_by_country seven_world) = Inr sales"
    and p: "fst (load_profit_by_category seven_world) = Inr profit"
    and c: "country_default pg = take 5 [c \<leftarrow> map hd (rows sales). c \<noteq> Null]"
    and k: "category_default pg = map hd (rows profit)"
    by blast
  have se: "sales =
     \<lparr>columns = [''Country'', ''TotalSales'', ''TotalOrders''],
          rows = [[Text ''Germany'', Number 70, Integer 1],
                  [Null, Number 60, Integer 1],
                  [Text ''USA'', Number 50, Integer 1],
                  [Text ''France'', Number 40, Integer 1],
                  [Text ''Brazil'', Number 30, Integer 1],
                  [Text ''Spain'', Number 20, Integer 1],
                  [Text ''Italy'', Number 10, Integer 1]]\<rparr>"
    using s sales by simp
  have pe: "profit =
     \<lparr>columns = [''CategoryName'', ''Profit''],
          rows = [[Text ''Drinks'', Number 150], [Text ''Sweets'', Number 130]]\<rparr>"
    using p profit by simp
  have "country_default pg =
      [Text ''Germany'', Text ''USA'', Text ''France'', Text ''Brazil'', Text ''Spain'']"
    unfolding c se by simp
  moreover have "category_default pg = [Text ''Drinks'', Text ''Sweets'']"
    unfolding k pe by simp
  ultimately show ?thesis
    using m sales by simp
qed

lemma restrict_to_all:
  assumes "getitem df col = Inr vals"
  shows "restrict_to df col (unique vals) = df"
proof -
  have vals: "vals = map (cell_at (position col (columns df))) (rows df)"
    using assms by (simp add: getitem_def split: if_splits)
  have "[r \<leftarrow> rows df. cell_at (position col (columns df)) r \<in> set (unique vals)] = rows df"
    unfolding vals set_unique by (simp add: filter_id_conv)
  then show ?thesis by (simp add: restrict_to_def)
qed

lemma restrict_to_all_nonnull:
  assumes "getitem df col = Inr vals"
  shows "restrict_to df col (unique (dropna vals)) =
     df\<lparr>rows := [r \<leftarrow> rows df. cell_at (position col (columns df)) r \<noteq> Null]\<rparr>"
proof -
  have vals: "vals = map (cell_at (position col (columns df))) (rows df)"
    using assms by (simp add: getitem_def split: if_splits)
  have "[r \<leftarrow> rows df. cell_at (position col (columns df)) r \<in> set (unique (dropna vals))] =
      [r \<leftarrow> rows df. cell_at (position col (columns df)) r \<noteq> Null]"
    unfolding vals set_unique dropna_def by (rule filter_cong) auto
  then show ?thesis by (simp add: restrict_to_def)
qed

lemma restrict_to_nonnull_id:
  assumes "getitem df col = Inr vals" "Null \<notin> set vals"
  shows "df\<lparr>rows := [r \<leftarrow> rows df. cell_at (position col (columns df)) r \<noteq> Null]\<rparr> = df"
proof -
  have vals: "vals = map (cell_at (position col (columns df))) (rows df)"
    using assms(1) by (simp add: getitem_def split: if_splits)
  have "[r \<leftarrow> rows df. cell_at (position col (columns df)) r \<noteq> Null] = rows df"
    using assms(2) unfolding vals by (auto simp: filter_id_conv image_iff)
  then show ?thesis by simp
qed

text \<open>
  C7 (amended). When the store opens and has its five tables and the user selects
  every value the two filters offer, the filtered profit table is the profit table
  itself, and the filtered sales table is the sales table without the rows whose
  country is missing; it is the sales table itself when no country is missing.
\<close>

theorem full_selection_reproduces:
  assumes "connect_result w = Inr s"
    and "tbl_Order s = Some os" and "tbl_Customer s = Some cs" and "tbl_OrderDetail s = Some ds"
    and "tbl_Product s = Some ps" and "tbl_Category s = Some cats"
    and "fst (main page_load w) = Inr pg0"
    and "country_choice u = Some (country_options pg0)"
    and "category_choice u = Some (category_options pg0)"
  shows "\<exists>pg sales profit countries.
    fst (main u w) = Inr pg \<and>
    fst (load_sales_by_country w) = Inr sales \<and>
    fst (load_profit_by_category w) = Inr profit \<and>
    getitem sales ''Country'' = Inr countries \<and>
    filtered_category_profit pg = profit \<and>
    filtered_country_sales pg =
      sales\<lparr>rows := [r \<leftarrow> rows sales. cell_at (position ''Country'' (columns sales)) r \<noteq> Null]\<rparr> \<and>
    (Null \<notin> set countries \<longrightarrow> filtered_country_sales pg = sales)"
proof -
  let ?sales = "sales_frame (sales_by_country_rows os cs ds)"
  let ?profit = "profit_frame (profit_by_category_rows ds ps cats)"
  let ?countries = "map (\<lambda>r. text_cell (Country r)) (sales_by_country_rows os cs ds)"
  let ?categories = "map (\<lambda>r. text_cell (CategoryName r)) (profit_by_category_rows ds ps cats)"
  have gs: "getitem ?sales ''Country'' = Inr ?countries"
    by (rule getitem_sales_frame)
  have gp: "getitem ?profit ''CategoryName'' = Inr ?categories"
    by (rule getitem_profit_frame)
  have opts: "country_options pg0 = unique (dropna ?countries)"
    "category_options pg0 = unique ?categories"
    using assms(7) by (auto simp: main_reachable [OF assms(1-6)] render_frames)
  have sel: "country_choice u = Some (unique (dropna ?countries))"
    "category_choice u = Some (unique ?categories)"
    using assms(8,9) opts by simp_all
  have fcp: "restrict_to ?profit ''CategoryName'' (unique ?categories) = ?profit"
    by (rule restrict_to_all [OF gp])
  have fcs: "restrict_to ?sales ''Country'' (unique (dropna ?countries)) =
      ?sales\<lparr>rows := [r \<leftarrow> rows ?sales. cell_at (position ''Country'' (columns ?sales)) r \<noteq> Null]\<rparr>"
    by (rule restrict_to_all_nonnull [OF gs])
  have same: "Null \<notin> set ?countries \<Longrightarrow>
      ?sales\<lparr>rows := [r \<leftarrow> rows ?sales. cell_at (position ''Country'' (columns ?sales)) r \<noteq> Null]\<rparr>
        = ?sales"
    by (rule restrict_to_nonnull_id [OF gs])
  have pg: "fst (main u w) = Inr pg \<Longrightarrow>
      filtered_category_profit pg = restrict_to ?profit ''CategoryName'' (unique ?categories) \<and>
      filtered_country_sales pg = restrict_to ?sales ''Country'' (unique (dropna ?countries))"
    for pg
    by (auto simp: main_reachable [OF assms(1-6)] render_frames sel)
  have ex: "\<exists>pg. fst (main u w) = Inr pg"
    by (simp add: main_reachable [OF assms(1-6)] render_frames)
  then obtain pg where m: "fst (main u w) = Inr pg" ..
  show ?thesis
  proof (intro exI conjI impI)
    show "fst (main u w) = Inr pg" by (rule m)
    show "fst (load_sales_by_country w) = Inr ?sales"
      by (simp add: load_sales_reachable [OF assms(1-4)])
    show "fst (load_profit_by_category w) = Inr ?profit"
      by (simp add: load_profit_reachable [OF assms(1,4,5,6)])
    show "getitem ?sales ''Country'' = Inr ?countries" by (rule gs)
    show "filtered_category_profit pg = ?profit"
      using pg [OF m] fcp by simp
    show "filtered_country_sales pg =
      ?sales\<lparr>rows := [r \<leftarrow> rows ?sales. cell_at (position ''Country'' (columns ?sales)) r \<noteq> Null]\<rparr>"
      using pg [OF m] fcs by simp
    show "filtered_country_sales pg = ?sales" if "Null \<notin> set ?countries"
      using pg [OF m] fcs same [OF that] by simp
  qed
qed

theorem full_selection_reproduces_witness:
  "\<exists>pg. fst (main everything_selected example_world) = Inr pg \<and>
     Inr (filtered_category_profit pg) = fst (load_profit_by_category example_world)"
proof -
  have w: "connect_result example_world = Inr example_store"
    by (simp add: example_world_def)
  have t: "tbl_Order example_store = Some example_orders"
    "tbl_Customer example_store = Some example_customers"
    "tbl_OrderDetail example_store = Some example_details"
    "tbl_Product example_store = Some example_products"
    "tbl_Category example_store = Some example_categories"
    by (simp_all add: example_store_def)
  have "\<exists>pg0. fst (main page_load example_world) = Inr pg0"
    by (simp add: main_reachable [OF w t] render_frames)
  then obtain pg0 where m: "fst (main page_load example_world) = Inr pg0" ..
  have "map_sum id country_options (fst (main page_load example_world)) =
      Inr [Text ''X'', Text ''Y'']"
    by code_simp
  then have c: "country_choice everything_selected = Some (country_options pg0)"
    by (simp add: m everything_selected_def)
  have "map_sum id category_options (fst (main page_load example_world)) =
      Inr [Text ''Drinks'', Text ''Sweets'']"
    by code_simp
  then have k: "category_choice everything_selected = Some (category_options pg0)"
    by (simp add: m everything_selected_def)
  show ?thesis
    using full_selection_reproduces [OF w t m c k] by auto
qed

text \<open>
  C7 as stated fails: in the example store a customer without a country has an order
  line, the country filter offers X and Y only, and with both selected the filtered
  sales table has two of the three rows of the sales table.
\<close>

theorem null_country_row_dropped:
  "map_sum id country_options (fst (main page_load example_world)) =
     Inr [Text ''X'', Text ''Y'']
   \<and> country_choice everything_selected = Some [Text ''X'', Text ''Y'']
   \<and> fst (load_sales_by_country example_world) =
     Inr \<lparr>columns = [''Country'', ''TotalSales'', ''TotalOrders''],
          rows = [[Text ''X'', Number 5, Integer 1],
                  [Text ''Y'', Number 4, Integer 1],
                  [Null, Number 1, Integer 1]]\<rparr>
   \<and> map_sum id filtered_country_sales (fst (main everything_selected example_world)) =
     Inr \<lparr>columns = [''Country'', ''TotalSales'', ''TotalOrders''],
          rows = [[Text ''X'', Number 5, Integer 1],
                  [Text ''Y'', Number 4, Integer 1]]\<rparr>
   \<and> map_sum id filtered_country_sales (fst (main everything_selected example_world)) \<noteq>
       fst (load_sales_by_country example_world)"
  by code_simp

lemma evaluate_Exception: "evaluate q s = Inl e \<Longrightarrow> is_Exception e"
  using evaluate_not_interrupt [of q s] by (cases e) auto

lemma fst_handler: "fst (handler e w) = fst (handler e w')"
  by (simp add: handler_def)

lemma connect_result_handler: "connect_result (snd (handler e w)) = connect_result w"
  by (simp add: handler_def st_error_def)

lemma execute_query_connect_result:
  "connect_result (snd (execute_query run q params w)) = connect_result w"
  by (cases "connect_result w")
     (simp_all add: execute_query_unreachable execute_query_reachable connect_result_handler
        split: sum.splits)

lemma execute_query_fst_cong:
  assumes "connect_result w' = connect_result w"
  shows "fst (execute_query run q params w') = fst (execute_query run q params w)"
proof (cases "connect_result w")
  case (Inl e)
  then show ?thesis
    using assms by (simp add: execute_query_unreachable fst_handler [of e w' w])
next
  case (Inr s)
  then show ?thesis
    using assms by (simp add: execute_query_reachable fst_handler [of _ w' w] split: sum.splits)
qed

lemma load_returns:
  assumes "fst (execute_query read_sql_query q None w) = Inr df"
  shows "\<exists>df'. fst (execute_query read_sql_query q' None w) = Inr df'"
proof (cases "connect_result w")
  case (Inl e)
  with assms have "is_Exception e"
    by (simp add: execute_query_unreachable handler_def split: if_splits)
  with Inl show ?thesis
    by (simp add: execute_query_unreachable handler_Exception)
next
  case (Inr s)
  show ?thesis
  proof (cases "evaluate q' s")
    case (Inl e)
    then show ?thesis
      using Inr evaluate_Exception [OF Inl]
      by (simp add: execute_query_reachable read_sql_query_def and_then_def handler_Exception)
  next
    case r: (Inr df')
    then show ?thesis
      using Inr by (simp add: execute_query_reachable read_sql_query_def and_then_def)
  qed
qed

lemma render_no_country:
  "''Country'' \<notin> set (columns sales) \<Longrightarrow> render u sales profit products = Inl (KeyError ''Country'')"
  by (simp add: render_def getitem_def and_then_def)

lemma render_no_category:
  "''Country'' \<in> set (columns sales) \<Longrightarrow> ''CategoryName'' \<notin> set (columns profit) \<Longrightarrow>
     render u sales profit products = Inl (KeyError ''CategoryName'')"
  by (simp add: render_def getitem_def and_then_def multiselect_ok set_take_subset)

lemma main_loaded:
  assumes "fst (load_sales_by_country w) = Inr sales"
  shows "\<exists>profit products.
    fst (load_profit_by_category w) = Inr profit \<and>
    fst (main u w) = render u sales profit products"
proof -
  obtain w1 where l1: "load_sales_by_country w = (Inr sales, w1)"
    using assms by (cases "load_sales_by_country w") simp
  have c1: "connect_result w1 = connect_result w"
    using execute_query_connect_result [of read_sql_query Sales_by_country None w] l1
    by (simp add: load_sales_by_country_def)
  obtain profit where p0: "fst (load_profit_by_category w) = Inr profit"
    using load_returns [OF assms [unfolded load_sales_by_country_def], of Profit_by_category]
    by (auto simp: load_profit_by_category_def)
  have p1: "fst (load_profit_by_category w1) = Inr profit"
    using p0 execute_query_fst_cong [OF c1, of read_sql_query Profit_by_category None] by (simp add: load_profit_by_category_def)
  then obtain w2 where l2: "load_profit_by_category w1 = (Inr profit, w2)"
    by (cases "load_profit_by_category w1") simp
  have c2: "connect_result w2 = connect_result w"
    using execute_query_connect_result [of read_sql_query Profit_by_category None w1] l2 c1
    by (simp add: load_profit_by_category_def)
  obtain products where t0: "fst (load_top_selling_products w) = Inr products"
    using load_returns [OF assms [unfolded load_sales_by_country_def], of Top_selling_products]
    by (auto simp: load_top_selling_products_def)
  have "fst (load_top_selling_products w2) = Inr products"
    using t0 execute_query_fst_cong [OF c2, of read_sql_query Top_selling_products None] by (simp add: load_top_selling_products_def)
  then obtain w3 where l3: "load_top_selling_products w2 = (Inr products, w3)"
    by (cases "load_top_selling_products w2") simp
  have "fst (main u w) = render u sales profit products"
    by (simp add: main_def l1 l2 l3)
  with p0 show ?thesis by blast
qed

text \<open>
  C10. When \<^verbatim>\<open>load_sales_by_country\<close> returns the table without columns, \<^verbatim>\<open>main\<close> raises
  \<^verbatim>\<open>KeyError\<close> for \<^verbatim>\<open>Country\<close>; when it returns a table with the \<^verbatim>\<open>Country\<close> column and
  \<^verbatim>\<open>load_profit_by_category\<close> returns the table without columns, \<^verbatim>\<open>main\<close> raises
  \<^verbatim>\<open>KeyError\<close> for \<^verbatim>\<open>CategoryName\<close>. No page is rendered in either case.
\<close>

theorem empty_table_breaks_page:
  "(fst (load_sales_by_country w) = Inr empty_DataFrame \<longrightarrow>
      fst (main u w) = Inl (KeyError ''Country''))
   \<and> ((\<exists>sales. fst (load_sales_by_country w) = Inr sales \<and> ''Country'' \<in> set (columns sales))
        \<and> fst (load_profit_by_category w) = Inr empty_DataFrame \<longrightarrow>
      fst (main u w) = Inl (KeyError ''CategoryName''))"
proof (intro conjI impI)
  assume a: "fst (load_sales_by_country w) = Inr empty_DataFrame"
  from main_loaded [OF a, of u] obtain profit products
    where "fst (main u w) = render u empty_DataFrame profit products" by blast
  then show "fst (main u w) = Inl (KeyError ''Country'')"
    by (simp add: render_no_country empty_DataFrame_def)
next
  assume b: "(\<exists>sales. fst (load_sales_by_country w) = Inr sales \<and>
      ''Country'' \<in> set (columns sales))
    \<and> fst (load_profit_by_category w) = Inr empty_DataFrame"
  then obtain sales where s: "fst (load_sales_by_country w) = Inr sales"
    and c: "''Country'' \<in> set (columns sales)" by blast
  from main_loaded [OF s, of u] b obtain products
    where "fst (main u w) = render u sales empty_DataFrame products" by auto
  then show "fst (main u w) = Inl (KeyError ''CategoryName'')"
    by (simp add: render_no_category [OF c] empty_DataFrame_def)
qed

theorem empty_table_breaks_page_witness:
  "fst (load_sales_by_country unreachable_world) = Inr empty_DataFrame
   \<and> fst (main page_load unreachable_world) = Inl (KeyError ''Country'')
   \<and> fst (load_profit_by_category no_category_world) = Inr empty_DataFrame
   \<and> fst (main page_load no_category_world) = Inl (KeyError ''CategoryName'')"
proof -
  have a: "fst (load_sales_by_country unreachable_world) = Inr empty_DataFrame"
    by code_simp
  have b: "fst (load_sales_by_country no_category_world) =
      Inr (sales_frame (sales_by_country_rows example_orders example_customers example_details))"
    by code_simp
  have c: "''Country'' \<in> set (columns (sales_frame
      (sales_by_country_rows example_orders example_customers example_details)))"
    by (simp add: sales_frame_def)
  have d: "fst (load_profit_by_category no_category_world) = Inr empty_DataFrame"
    by code_simp
  show ?thesis
    using empty_table_breaks_page [of unreachable_world page_load]
      empty_table_breaks_page [of no_category_world page_load] a b c d
    by simp
qed

end
